theory Spec2Isabelle
  imports Complex_Main "HOL-Library.Char_ord" "HOL-Library.List_Lexorder" "HOL-Library.Multiset"
begin

section \<open>Go strings and numbers\<close>

text \<open>
  A Go \<open>string\<close> is a sequence of bytes, modelled as \<^typ>\<open>string\<close>. A \<open>time.Duration\<close> is an
  \<open>int64\<close> count of nanoseconds, modelled as \<^typ>\<open>int\<close>; the 64-bit range is written out
  where the code checks it. A \<open>float64\<close> is modelled by the rational it denotes: rounding to
  53 bits of mantissa is not part of the model.
\<close>

type_synonym Duration = int

definition Nanosecond :: Duration where "Nanosecond = 1"
definition Microsecond :: Duration where "Microsecond = 1000"
definition Millisecond :: Duration where "Millisecond = 1000000"
definition Second :: Duration where "Second = 1000000000"
definition Minute :: Duration where "Minute = 60000000000"
definition Hour :: Duration where "Hour = 3600000000000"

definition is_digit :: "char \<Rightarrow> bool" where
  "is_digit c = (CHR ''0'' \<le> c \<and> c \<le> CHR ''9'')"

definition is_space :: "char \<Rightarrow> bool" where
  \<comment> \<open>the ASCII white space of \<open>unicode.IsSpace\<close>: tab, line feed, vertical tab, form feed,
      carriage return, space\<close>
  "is_space c = (of_char c = (32::nat) \<or> ((9::nat) \<le> of_char c \<and> of_char c \<le> (13::nat)))"

definition TrimSpace :: "string \<Rightarrow> string" where
  "TrimSpace s = rev (dropWhile is_space (rev (dropWhile is_space s)))"

definition to_upper :: "char \<Rightarrow> char" where
  \<comment> \<open>\<open>strings.ToUpper\<close> and \<open>strings.ToLower\<close> on the ASCII letters; other bytes are kept\<close>
  "to_upper c =
     (if CHR ''a'' \<le> c \<and> c \<le> CHR ''z'' then ''ABCDEFGHIJKLMNOPQRSTUVWXYZ'' ! (of_char c - 97) else c)"

definition to_lower :: "char \<Rightarrow> char" where
  "to_lower c =
     (if CHR ''A'' \<le> c \<and> c \<le> CHR ''Z'' then ''abcdefghijklmnopqrstuvwxyz'' ! (of_char c - 65) else c)"

definition ToUpper :: "string \<Rightarrow> string" where
  "ToUpper s = map to_upper s"

definition ToLower :: "string \<Rightarrow> string" where
  "ToLower s = map to_lower s"

definition HasPrefix :: "string \<Rightarrow> string \<Rightarrow> bool" where
  "HasPrefix s p = (take (length p) s = p)"

definition HasSuffix :: "string \<Rightarrow> string \<Rightarrow> bool" where
  "HasSuffix s p = (length p \<le> length s \<and> drop (length s - length p) s = p)"

definition TrimSuffix :: "string \<Rightarrow> string \<Rightarrow> string" where
  "TrimSuffix s p = (if HasSuffix s p then take (length s - length p) s else s)"

definition TrimPrefix :: "string \<Rightarrow> string \<Rightarrow> string" where
  "TrimPrefix s p = (if HasPrefix s p then drop (length p) s else s)"


fun Join :: "string list \<Rightarrow> string \<Rightarrow> string" where
  "Join [] sep = []"
| "Join [x] sep = x"
| "Join (x # y # ys) sep = x @ sep @ Join (y # ys) sep"

fun nat_dec :: "nat \<Rightarrow> string" where
  "nat_dec n =
     (if n < 10 then [''0123456789'' ! n]
      else nat_dec (n div 10) @ [''0123456789'' ! (n mod 10)])"

declare nat_dec.simps [simp del]

definition itoa :: "int \<Rightarrow> string" where
  \<comment> \<open>\<open>fmt.Sprintf("%d", n)\<close>\<close>
  "itoa n = (if n < 0 then CHR ''-'' # nat_dec (nat (- n)) else nat_dec (nat n))"

definition digit_val :: "char \<Rightarrow> int" where
  "digit_val c = of_char c - 48"

definition dec_val :: "string \<Rightarrow> int" where
  "dec_val ds = foldl (\<lambda>a c. 10 * a + digit_val c) 0 ds"

definition trunc :: "rat \<Rightarrow> int" where
  \<comment> \<open>Go's conversion of a float to an integer type discards the fraction (towards zero)\<close>
  "trunc q = (if 0 \<le> q then \<lfloor>q\<rfloor> else \<lceil>q\<rceil>)"

definition ParseFloat :: "string \<Rightarrow> rat option" where
  \<comment> \<open>Modelled from the spec: \<open>strconv.ParseFloat(s, 64)\<close> of the Go standard library is not
      part of the repository. The model covers the fixed-point decimal literals (optional sign,
      digits, optional point and digits, at least one digit), which is what curl prints and
      what the size grammar passes on; \<open>None\<close> is the library's error. Exponents, hexadecimal
      literals, digit separators, \<open>Inf\<close> and \<open>NaN\<close> are outside the model (answered \<open>None\<close>).\<close>
  "ParseFloat s =
     (let (neg, r) = (case s of
                        [] \<Rightarrow> (False, s)
                      | c # cs \<Rightarrow> if c = CHR ''-'' then (True, cs)
                                  else if c = CHR ''+'' then (False, cs) else (False, s));
          ip = takeWhile is_digit r;
          r1 = dropWhile is_digit r;
          (fp, r2) = (case r1 of
                        [] \<Rightarrow> ([], [])
                      | c # cs \<Rightarrow> if c = CHR ''.'' then (takeWhile is_digit cs, dropWhile is_digit cs)
                                  else ([], r1));
          m = rat_of_int (dec_val ip) + rat_of_int (dec_val fp) / 10 ^ length fp
      in if r2 \<noteq> [] \<or> (ip = [] \<and> fp = []) then None
         else Some (if neg then - m else m))"

subsection \<open>time.ParseDuration\<close>

text \<open>
  Modelled from the spec: \<open>time.ParseDuration\<close> of the Go standard library is not part of the
  repository. The definitions below follow the library function step by step (sign, the special
  case \<open>"0"\<close>, groups of digits, fraction and unit, the overflow checks against \<open>2^63\<close>); the
  one \<open>float64\<close> product, for the fraction of a group, is taken exactly. \<open>None\<close> is the
  library's error.
\<close>

definition is_num_char :: "char \<Rightarrow> bool" where
  "is_num_char c = (is_digit c \<or> c = CHR ''.'')"



fun leadingInt_from :: "int \<Rightarrow> string \<Rightarrow> (int \<times> string) option" where
  "leadingInt_from x [] = Some (x, [])"
| "leadingInt_from x (c # cs) =
     (if \<not> is_digit c then Some (x, c # cs)
      else if x > 2 ^ 63 div 10 then None
      else let y = x * 10 + digit_val c
           in if y > 2 ^ 63 then None else leadingInt_from y cs)"

definition leadingInt :: "string \<Rightarrow> (int \<times> string) option" where
  "leadingInt s = leadingInt_from 0 s"

fun leadingFraction_from :: "int \<Rightarrow> int \<Rightarrow> bool \<Rightarrow> string \<Rightarrow> int \<times> int \<times> string" where
  "leadingFraction_from x scale overflow [] = (x, scale, [])"
| "leadingFraction_from x scale overflow (c # cs) =
     (if \<not> is_digit c then (x, scale, c # cs)
      else if overflow then leadingFraction_from x scale overflow cs
      else if x > (2 ^ 63 - 1) div 10 then leadingFraction_from x scale True cs
      else let y = x * 10 + digit_val c
           in if y > 2 ^ 63 then leadingFraction_from x scale True cs
              else leadingFraction_from y (scale * 10) overflow cs)"

definition leadingFraction :: "string \<Rightarrow> int \<times> int \<times> string" where
  "leadingFraction s = leadingFraction_from 0 1 False s"

definition unitMap :: "string \<Rightarrow> int option" where
  "unitMap u =
     (if u = ''ns'' then Some 1
      else if u = ''us'' then Some 1000
      else if u = [CHR 0xC2, CHR 0xB5, CHR ''s''] then Some 1000
      else if u = [CHR 0xCE, CHR 0xBC, CHR ''s''] then Some 1000
      else if u = ''ms'' then Some 1000000
      else if u = ''s'' then Some 1000000000
      else if u = ''m'' then Some 60000000000
      else if u = ''h'' then Some 3600000000000
      else None)"

definition duration_fraction :: "string \<Rightarrow> int \<times> int \<times> string \<times> bool" where
  \<comment> \<open>the optional \<open>(\.[0-9]*)?\<close> of a group: fraction digits, their scale, the rest, and
      whether a digit was consumed\<close>
  "duration_fraction s1 =
     (case s1 of
        [] \<Rightarrow> (0, 1, s1, False)
      | c1 # cs1 \<Rightarrow>
          if c1 = CHR ''.'' then
            (case leadingFraction cs1 of
               (f, scale, r) \<Rightarrow> (f, scale, r, length cs1 \<noteq> length r))
          else (0, 1, s1, False))"

definition duration_unit :: "int \<Rightarrow> int \<Rightarrow> int \<Rightarrow> string \<Rightarrow> (int \<times> string) option" where
  \<comment> \<open>the unit of a group and the group's value in nanoseconds\<close>
  "duration_unit v f scale s2 =
     (let u = takeWhile (\<lambda>c. \<not> is_num_char c) s2;
          s3 = dropWhile (\<lambda>c. \<not> is_num_char c) s2
      in if u = [] then None
         else case unitMap u of
                None \<Rightarrow> None
              | Some unit \<Rightarrow>
                  if v > 2 ^ 63 div unit then None
                  else
                    let v1 = v * unit;
                        v2 = (if f > 0
                              then v1 + trunc (rat_of_int f * (rat_of_int unit / rat_of_int scale))
                              else v1)
                    in if f > 0 \<and> v2 > 2 ^ 63 then None else Some (v2, s3))"

definition duration_group :: "string \<Rightarrow> (int \<times> string) option" where
  \<comment> \<open>one pass of the loop of \<open>ParseDuration\<close>: \<open>[0-9]*(\.[0-9]*)?[a-z]+\<close>\<close>
  "duration_group s =
     (case s of
        [] \<Rightarrow> None
      | c0 # _ \<Rightarrow>
          if \<not> is_num_char c0 then None
          else case leadingInt s of
                 None \<Rightarrow> None
               | Some (v, s1) \<Rightarrow>
                   (case duration_fraction s1 of
                      (f, scale, s2, post) \<Rightarrow>
                        if length s = length s1 \<and> \<not> post then None
                        else duration_unit v f scale s2))"

lemma leadingInt_from_length:
  "leadingInt_from x s = Some (v, r) \<Longrightarrow> length r \<le> length s"
  by (induction x s rule: leadingInt_from.induct) (auto simp: Let_def split: if_splits)

lemma leadingFraction_from_length:
  "leadingFraction_from x sc ov s = (f, sc', r) \<Longrightarrow> length r \<le> length s"
  by (induction x sc ov s rule: leadingFraction_from.induct) (auto simp: Let_def split: if_splits)

lemma duration_fraction_length:
  "duration_fraction s1 = (f, sc, s2, post) \<Longrightarrow> length s2 \<le> length s1"
  by (auto simp: duration_fraction_def leadingFraction_def split: list.splits if_splits prod.splits
           dest!: leadingFraction_from_length)

lemma takeWhile_nonempty_dropWhile_shorter:
  "takeWhile P xs \<noteq> [] \<Longrightarrow> length (dropWhile P xs) < length xs"
  by (cases xs) (auto simp: le_imp_less_Suc length_dropWhile_le split: if_splits)

lemma duration_unit_shorter:
  "duration_unit v f sc s2 = Some (w, r) \<Longrightarrow> length r < length s2"
  by (auto simp: duration_unit_def Let_def takeWhile_nonempty_dropWhile_shorter
           split: if_splits option.splits)

lemma duration_group_shorter:
  assumes "duration_group s = Some (v, r)"
  shows "length r < length s"
proof -
  from assms obtain v0 s1 f sc s2 post where
    li: "leadingInt s = Some (v0, s1)" and
    fr: "duration_fraction s1 = (f, sc, s2, post)" and
    un: "duration_unit v0 f sc s2 = Some (v, r)"
    by (auto simp: duration_group_def split: list.splits if_splits option.splits prod.splits)
  have "length s1 \<le> length s"
    using li leadingInt_from_length by (auto simp: leadingInt_def)
  moreover have "length s2 \<le> length s1"
    using fr by (rule duration_fraction_length)
  moreover have "length r < length s2"
    using un by (rule duration_unit_shorter)
  ultimately show ?thesis by simp
qed

function duration_groups :: "string \<Rightarrow> int \<Rightarrow> int option" where
  "duration_groups s d =
     (if s = [] then Some d
      else case duration_group s of
             None \<Rightarrow> None
           | Some (v, r) \<Rightarrow> if d + v > 2 ^ 63 then None else duration_groups r (d + v))"
  by pat_completeness auto
termination
  by (relation "measure (\<lambda>(s, d). length s)") (auto dest: duration_group_shorter)

declare duration_groups.simps [simp del]

definition ParseDuration :: "string \<Rightarrow> Duration option" where
  "ParseDuration orig =
     (let (neg, s) = (case orig of
                        [] \<Rightarrow> (False, orig)
                      | c # cs \<Rightarrow> if c = CHR ''-'' then (True, cs)
                                  else if c = CHR ''+'' then (False, cs) else (False, orig))
      in if s = ''0'' then Some 0
         else if s = [] then None
         else case duration_groups s 0 of
                None \<Rightarrow> None
              | Some d \<Rightarrow> if neg then Some (- d)
                          else if d > 2 ^ 63 - 1 then None else Some d)"

section \<open>Configuration (package config)\<close>

subsection \<open>ByteSize\<close>

type_synonym ByteSize = int

definition KB :: int where "KB = 1024"
definition MB :: int where "MB = 1024 * 1024"
definition GB :: int where "GB = 1024 * 1024 * 1024"

definition ByteSize_String :: "ByteSize \<Rightarrow> string" where
  "ByteSize_String bytes =
     (if bytes \<ge> GB \<and> bytes mod GB = 0 then itoa (bytes div GB) @ ''GB''
      else if bytes \<ge> MB \<and> bytes mod MB = 0 then itoa (bytes div MB) @ ''MB''
      else if bytes \<ge> KB \<and> bytes mod KB = 0 then itoa (bytes div KB) @ ''KB''
      else itoa bytes @ ''B'')"

datatype size_error = EmptySize | InvalidNumber string | UnknownUnit string

definition parseByteSize :: "string \<Rightarrow> size_error + int" where
  "parseByteSize s0 =
     (let s = TrimSpace s0 in
      if s = [] then Inl EmptySize
      else
        let (numStr0, unitStr0) =
              (if list_all is_num_char s then ([], [])
               else (takeWhile is_num_char s, dropWhile is_num_char s));
            (numStr, unitStr1) = (if unitStr0 = [] then (s, ''B'') else (numStr0, unitStr0))
        in case ParseFloat (TrimSpace numStr) of
             None \<Rightarrow> Inl (InvalidNumber s)
           | Some num \<Rightarrow>
               let unitStr = TrimSpace (ToUpper unitStr1) in
               if unitStr = ''B'' \<or> unitStr = [] then Inr (trunc (num * 1))
               else if unitStr = ''KB'' \<or> unitStr = ''K'' then Inr (trunc (num * 1024))
               else if unitStr = ''MB'' \<or> unitStr = ''M'' then Inr (trunc (num * (1024 * 1024)))
               else if unitStr = ''GB'' \<or> unitStr = ''G'' then Inr (trunc (num * (1024 * 1024 * 1024)))
               else Inl (UnknownUnit unitStr))"


subsection \<open>Tests and steps\<close>

record JitterConfig =
  Enabled :: "bool option"
  Max :: string

record TestStep =
  Name :: string
  Script :: string
  Timeout :: string
  FileSize :: "ByteSize option"
  TTLSeconds :: "int option"
  FilePrefix :: "string option"
  MaxAgeMinutes :: "int option"
  MaxDelete :: "int option"
  Jitter :: "JitterConfig option"

record Test =
  Name :: string
  Schedule :: string
  Enabled :: bool
  Executor :: string
  Bucket :: "string option"
  Filename :: "string option"
  Jitter :: "JitterConfig option"
  Steps :: "TestStep list"

definition GetExecutor :: "Test \<Rightarrow> string" where
  "GetExecutor t = (if Executor t = [] then ''uplink'' else Executor t)"



definition IsSingleStep :: "Test \<Rightarrow> bool" where
  "IsSingleStep t = (length (Steps t) = 1)"

definition TimeoutDuration :: "TestStep \<Rightarrow> Duration" where
  "TimeoutDuration t =
     (case ParseDuration (Timeout t) of
        None \<Rightarrow> 2 * Minute
      | Some d \<Rightarrow> d)"

definition IsEnabled :: "JitterConfig option \<Rightarrow> bool" where
  "IsEnabled j =
     (case j of
        None \<Rightarrow> False
      | Some c \<Rightarrow> (case JitterConfig.Enabled c of None \<Rightarrow> False | Some b \<Rightarrow> b))"

definition GetEffectiveJitter :: "JitterConfig option \<Rightarrow> JitterConfig option \<Rightarrow> JitterConfig" where
  "GetEffectiveJitter j parent =
     (let result0 = (case parent of
                       None \<Rightarrow> \<lparr>JitterConfig.Enabled = None, Max = []\<rparr>
                     | Some p \<Rightarrow> \<lparr>JitterConfig.Enabled = JitterConfig.Enabled p, Max = JitterConfig.Max p\<rparr>)
      in case j of
           None \<Rightarrow> result0
         | Some c \<Rightarrow>
             let result1 = (if JitterConfig.Enabled c \<noteq> None
                            then result0\<lparr>JitterConfig.Enabled := JitterConfig.Enabled c\<rparr>
                            else result0)
             in if JitterConfig.Max c \<noteq> [] then result1\<lparr>Max := JitterConfig.Max c\<rparr> else result1)"

datatype jitter_error =
  InvalidPercentage string | PercentageOutOfRange | NoScheduleInterval | InvalidDuration string

definition ParseMaxJitter :: "JitterConfig option \<Rightarrow> Duration \<Rightarrow> jitter_error + Duration" where
  "ParseMaxJitter j scheduleInterval =
     (case j of
        None \<Rightarrow> Inr 0
      | Some c \<Rightarrow>
          if JitterConfig.Max c = [] then Inr 0
          else
            let max = TrimSpace (JitterConfig.Max c) in
            if HasSuffix max ''%'' then
              (case ParseFloat (TrimSuffix max ''%'') of
                 None \<Rightarrow> Inl (InvalidPercentage max)
               | Some percent \<Rightarrow>
                   if percent < 0 \<or> percent > 100 then Inl PercentageOutOfRange
                   else if scheduleInterval \<le> 0 then Inl NoScheduleInterval
                   else Inr (trunc (rat_of_int scheduleInterval * percent / 100)))
            else
              (case ParseDuration max of
                 None \<Rightarrow> Inl (InvalidDuration max)
               | Some d \<Rightarrow> Inr d))"

definition duration_or_zero :: "jitter_error + Duration \<Rightarrow> Duration" where
  \<comment> \<open>\<open>maxJitter, _ := ParseMaxJitter(...)\<close>: every error return carries the duration 0\<close>
  "duration_or_zero r = (case r of Inl _ \<Rightarrow> 0 | Inr d \<Rightarrow> d)"

section \<open>Metrics (package metrics)\<close>

text \<open>
  The collector holds Prometheus vectors. A counter vector is modelled as a function from the
  label values to the count, a histogram vector as the list of its observations per label
  values, a gauge vector as the last value set. Observations and gauge values are kept as the
  \<open>time.Duration\<close> handed in (the code converts them to seconds on the way). The debug log
  lines are not part of the state.
\<close>

type_synonym labels = "string list"

record Collector =
  testRunsTotal :: "labels \<Rightarrow> int"
  testRunDuration :: "labels \<Rightarrow> Duration list"
  storjDuration :: "labels \<Rightarrow> Duration list"
  storjBytes :: "labels \<Rightarrow> int"
  storjOperationCount :: "labels \<Rightarrow> int"
  storjOperationSuccess :: "labels \<Rightarrow> int"
  httpTiming :: "labels \<Rightarrow> Duration list"
  lastDuration :: "labels \<Rightarrow> Duration option"
  lastHTTPPhase :: "labels \<Rightarrow> Duration option"

definition NewCollector :: Collector where
  "NewCollector =
     \<lparr>testRunsTotal = (\<lambda>_. 0), testRunDuration = (\<lambda>_. []), storjDuration = (\<lambda>_. []),
      storjBytes = (\<lambda>_. 0), storjOperationCount = (\<lambda>_. 0), storjOperationSuccess = (\<lambda>_. 0),
      httpTiming = (\<lambda>_. []), lastDuration = (\<lambda>_. None), lastHTTPPhase = (\<lambda>_. None)\<rparr>"

definition Inc :: "(labels \<Rightarrow> int) \<Rightarrow> labels \<Rightarrow> (labels \<Rightarrow> int)" where
  "Inc v l = v(l := v l + 1)"

definition Add :: "(labels \<Rightarrow> int) \<Rightarrow> labels \<Rightarrow> int \<Rightarrow> (labels \<Rightarrow> int) option" where
  \<comment> \<open>\<open>Counter.Add\<close> of the Prometheus client panics on a negative value: \<open>None\<close>\<close>
  "Add v l x = (if x < 0 then None else Some (v(l := v l + x)))"

definition Observe :: "(labels \<Rightarrow> Duration list) \<Rightarrow> labels \<Rightarrow> Duration \<Rightarrow> (labels \<Rightarrow> Duration list)" where
  "Observe h l d = h(l := h l @ [d])"

definition Set_gauge :: "(labels \<Rightarrow> Duration option) \<Rightarrow> labels \<Rightarrow> Duration \<Rightarrow> (labels \<Rightarrow> Duration option)" where
  "Set_gauge g l d = g(l := Some d)"

definition status_label :: "bool \<Rightarrow> string" where
  "status_label success = (if success then ''success'' else ''failure'')"

definition RecordTestRun :: "string \<Rightarrow> string \<Rightarrow> string \<Rightarrow> bool \<Rightarrow> Duration \<Rightarrow> Collector \<Rightarrow> Collector" where
  "RecordTestRun testName stepName executor success duration c =
     c\<lparr>testRunsTotal := Inc (testRunsTotal c) [testName, stepName, executor, status_label success],
       testRunDuration := Observe (testRunDuration c) [testName, stepName, executor] duration\<rparr>"

definition formatBytesLabel :: "int \<Rightarrow> string" where
  "formatBytesLabel bytes =
     (if bytes \<ge> GB \<and> bytes mod GB = 0 then itoa (bytes div GB) @ ''GB''
      else if bytes \<ge> MB \<and> bytes mod MB = 0 then itoa (bytes div MB) @ ''MB''
      else if bytes \<ge> KB \<and> bytes mod KB = 0 then itoa (bytes div KB) @ ''KB''
      else itoa bytes @ ''B'')"

definition record_duration :: "string \<Rightarrow> string \<Rightarrow> string \<Rightarrow> string \<Rightarrow> string \<Rightarrow> Duration \<Rightarrow> Collector \<Rightarrow> Collector" where
  \<comment> \<open>the two guarded blocks shared by the upload, download and delete records: the duration
      histogram (with a size label, for a positive duration) and the live gauge\<close>
  "record_duration testName action executor bucket fileSize duration c =
     (let c1 = (if fileSize \<noteq> [] \<and> duration > 0
                then c\<lparr>storjDuration := Observe (storjDuration c) [testName, action, executor, bucket, fileSize] duration\<rparr>
                else c)
      in if duration > 0
         then c1\<lparr>lastDuration := Set_gauge (lastDuration c1) [testName, action, executor] duration\<rparr>
         else c1)"

definition record_transfer :: "string \<Rightarrow> string \<Rightarrow> string \<Rightarrow> string \<Rightarrow> int \<Rightarrow> bool \<Rightarrow> Collector \<Rightarrow> Collector option" where
  \<comment> \<open>the \<open>if success { ... } else { ... }\<close> block of the upload and download records\<close>
  "record_transfer testName action executor bucket bytes success c =
     (if success then
        (case Add (storjBytes c) [testName, action, executor, bucket] bytes of
           None \<Rightarrow> None
         | Some v \<Rightarrow>
             Some (c\<lparr>storjBytes := v,
                     storjOperationCount := Inc (storjOperationCount c) [testName, action, executor, bucket],
                     storjOperationSuccess := Inc (storjOperationSuccess c) [testName, action, executor, ''success'']\<rparr>))
      else
        Some (c\<lparr>storjOperationSuccess := Inc (storjOperationSuccess c) [testName, action, executor, ''failure'']\<rparr>))"

definition RecordStorjUpload ::
  "string \<Rightarrow> string \<Rightarrow> string \<Rightarrow> string \<Rightarrow> Duration \<Rightarrow> int \<Rightarrow> bool \<Rightarrow> Collector \<Rightarrow> Collector option" where
  "RecordStorjUpload testName executor bucket fileSize duration bytes success c =
     record_transfer testName ''upload'' executor bucket bytes success
       (record_duration testName ''upload'' executor bucket fileSize duration c)"

definition RecordStorjDownload ::
  "string \<Rightarrow> string \<Rightarrow> string \<Rightarrow> string \<Rightarrow> Duration \<Rightarrow> int \<Rightarrow> bool \<Rightarrow> Collector \<Rightarrow> Collector option" where
  "RecordStorjDownload testName executor bucket fileSize0 duration bytes success c =
     (let fileSize1 = (if fileSize0 = [] \<and> bytes > 0 then formatBytesLabel bytes else fileSize0);
          fileSize = (if fileSize1 = [] then ''unknown'' else fileSize1)
      in record_transfer testName ''download'' executor bucket bytes success
           (record_duration testName ''download'' executor bucket fileSize duration c))"

definition RecordStorjList :: "string \<Rightarrow> string \<Rightarrow> string \<Rightarrow> bool \<Rightarrow> Collector \<Rightarrow> Collector" where
  "RecordStorjList testName executor bucket success c =
     (let c1 = c\<lparr>storjOperationSuccess :=
                   Inc (storjOperationSuccess c) [testName, ''list'', executor, status_label success]\<rparr>
      in if success
         then c1\<lparr>storjOperationCount := Inc (storjOperationCount c1) [testName, ''list'', executor, bucket]\<rparr>
         else c1)"




definition RecordStorjDelete ::
  "string \<Rightarrow> string \<Rightarrow> string \<Rightarrow> string \<Rightarrow> Duration \<Rightarrow> int \<Rightarrow> bool \<Rightarrow> Collector \<Rightarrow> Collector" where
  "RecordStorjDelete testName executor bucket fileSize duration cnt success c =
     (let c1 = record_duration testName ''delete'' executor bucket fileSize duration c;
          c2 = c1\<lparr>storjOperationSuccess :=
                    Inc (storjOperationSuccess c1) [testName, ''delete'', executor, status_label success]\<rparr>
      in if success \<and> cnt > 0
         then c2\<lparr>storjOperationCount :=
                   (storjOperationCount c2)([testName, ''delete'', executor, bucket] :=
                      storjOperationCount c2 [testName, ''delete'', executor, bucket] + cnt)\<rparr>
         else c2)"

section \<open>The curl executor's timing line\<close>




section \<open>Jitter (package jitter)\<close>

text \<open>
  \<open>Apply\<close> draws from \<open>math/rand\<close> and then waits in a \<open>select\<close> on a timer and on the
  context. The model takes what the outside supplies as arguments: the raw 63-bit draw of the
  generator, the time (from the call, in nanoseconds) at which the context is done, if ever,
  and the choice \<open>select\<close> makes when both channels are ready at the same instant. It returns
  the error (\<open>None\<close> for \<open>nil\<close>) and how long the call waited.
\<close>

datatype ctx_error = Canceled | DeadlineExceeded

record Context =
  doneAt :: "int option"
  ctxErr :: ctx_error

definition Int63n :: "int \<Rightarrow> int \<Rightarrow> int" where
  \<comment> \<open>Modelled from the spec: \<open>rand.Int63n(n)\<close> of the Go standard library, for \<open>n > 0\<close>, is a
      number in \<open>[0, n)\<close> computed from the generator's draw; the library's rejection sampling,
      which only evens out the distribution, is left out.\<close>
  "Int63n draw n = draw mod n"

definition Apply :: "int \<Rightarrow> bool \<Rightarrow> Context \<Rightarrow> Duration \<Rightarrow> ctx_error option \<times> Duration" where
  "Apply draw timerFirst ctx maxJitter =
     (if maxJitter \<le> 0 then (None, 0)
      else
        let jitterDuration = Int63n draw maxJitter in
        case doneAt ctx of
          None \<Rightarrow> (None, jitterDuration)
        | Some t0 \<Rightarrow>
            let t = max 0 t0 in
            if jitterDuration < t then (None, jitterDuration)
            else if t < jitterDuration then (Some (ctxErr ctx), t)
            else if timerFirst then (None, jitterDuration)
            else (Some (ctxErr ctx), jitterDuration))"

section \<open>Loading the configuration\<close>

record SatelliteConfig =
  AccessGrant :: string
  Bucket :: string

record S3Config =
  Endpoint :: string
  AccessKey :: string
  SecretKey :: string
  Region :: string

record K6Config =
  BinaryPath :: string
  OutputFormat :: string

record MetricsConfig =
  Port :: int
  Path :: string

record LoggingConfig =
  Level :: string
  Format :: string

record Config =
  Satellite :: SatelliteConfig
  S3 :: S3Config
  Tests :: "Test list"
  K6 :: K6Config
  Metrics :: MetricsConfig
  Logging :: LoggingConfig
  Jitter :: JitterConfig

datatype load_error = ReadError | UnmarshalError

text \<open>
  \<open>Load\<close> reads the file, expands the environment references and hands the text to
  \<open>yaml.Unmarshal\<close>. These three are the operating system and the YAML library; the model takes
  them as arguments: \<open>readFile\<close> (\<open>None\<close> when the file cannot be read), \<open>expandEnv\<close>, and
  \<open>unmarshal\<close>, the decoding of the document into a \<open>Config\<close> (\<open>None\<close> when the library
  rejects it). What \<open>Load\<close> itself does after decoding is the defaults, and nothing else.
\<close>

definition Load ::
  "(string \<Rightarrow> string option) \<Rightarrow> (string \<Rightarrow> string) \<Rightarrow> (string \<Rightarrow> Config option) \<Rightarrow>
   string \<Rightarrow> load_error + Config" where
  "Load readFile expandEnv unmarshal path =
     (case readFile path of
        None \<Rightarrow> Inl ReadError
      | Some data \<Rightarrow>
          (case unmarshal (expandEnv data) of
             None \<Rightarrow> Inl UnmarshalError
           | Some cfg0 \<Rightarrow>
               let cfg1 = (if BinaryPath (K6 cfg0) = []
                           then cfg0\<lparr>K6 := (K6 cfg0)\<lparr>BinaryPath := ''/usr/local/bin/k6''\<rparr>\<rparr> else cfg0);
                   cfg2 = (if OutputFormat (K6 cfg1) = []
                           then cfg1\<lparr>K6 := (K6 cfg1)\<lparr>OutputFormat := ''json''\<rparr>\<rparr> else cfg1);
                   cfg3 = (if Region (S3 cfg2) = []
                           then cfg2\<lparr>S3 := (S3 cfg2)\<lparr>Region := ''us-east-1''\<rparr>\<rparr> else cfg2);
                   cfg4 = (if Port (Metrics cfg3) = 0
                           then cfg3\<lparr>Metrics := (Metrics cfg3)\<lparr>Port := 8080\<rparr>\<rparr> else cfg3);
                   cfg5 = (if Path (Metrics cfg4) = []
                           then cfg4\<lparr>Metrics := (Metrics cfg4)\<lparr>Path := ''/metrics''\<rparr>\<rparr> else cfg4);
                   cfg6 = (if Level (Logging cfg5) = []
                           then cfg5\<lparr>Logging := (Logging cfg5)\<lparr>Level := ''info''\<rparr>\<rparr> else cfg5);
                   cfg7 = (if Format (Logging cfg6) = []
                           then cfg6\<lparr>Logging := (Logging cfg6)\<lparr>Format := ''json''\<rparr>\<rparr> else cfg6)
               in Inr cfg7))"

definition empty_steps_document :: string where
  "empty_steps_document =
     ''tests: [{name: t1, schedule: 0 * * * *, enabled: true, steps: []}]''"

definition empty_steps_config :: Config where
  \<comment> \<open>what \<open>yaml.Unmarshal\<close> makes of \<open>empty_steps_document\<close>\<close>
  "empty_steps_config =
     \<lparr>Satellite = \<lparr>AccessGrant = ''grant'', SatelliteConfig.Bucket = ''synthetics''\<rparr>,
      S3 = \<lparr>Endpoint = [], AccessKey = [], SecretKey = [], Region = []\<rparr>,
      Tests = [\<lparr>Test.Name = ''t1'', Schedule = ''0 * * * *'', Test.Enabled = True, Executor = [],
                Test.Bucket = None, Filename = None, Test.Jitter = None, Steps = []\<rparr>],
      K6 = \<lparr>BinaryPath = [], OutputFormat = []\<rparr>,
      Metrics = \<lparr>Port = 0, Path = []\<rparr>,
      Logging = \<lparr>Level = [], Format = []\<rparr>,
      Config.Jitter = \<lparr>JitterConfig.Enabled = None, Max = []\<rparr>\<rparr>"

section \<open>Scheduler (package scheduler)\<close>

fun fields_from :: "string \<Rightarrow> string \<Rightarrow> string list" where
  "fields_from cur [] = (if cur = [] then [] else [cur])"
| "fields_from cur (c # cs) =
     (if is_space c then (if cur = [] then fields_from [] cs else cur # fields_from [] cs)
      else fields_from (cur @ [c]) cs)"

definition Fields :: "string \<Rightarrow> string list" where
  \<comment> \<open>\<open>strings.Fields\<close>: the maximal runs of non-space bytes\<close>
  "Fields s = fields_from [] s"

definition Atoi :: "string \<Rightarrow> int option" where
  \<comment> \<open>Modelled from the spec: \<open>strconv.Atoi\<close> of the Go standard library: an optional sign and
      decimal digits, within the range of \<open>int\<close>; \<open>None\<close> is the library's error.\<close>
  "Atoi s =
     (let (neg, ds) = (case s of
                         [] \<Rightarrow> (False, s)
                       | c # cs \<Rightarrow> if c = CHR ''-'' then (True, cs)
                                   else if c = CHR ''+'' then (False, cs) else (False, s))
      in if ds = [] \<or> \<not> list_all is_digit ds then None
         else let v = (if neg then - dec_val ds else dec_val ds)
              in if v < - (2 ^ 63) \<or> v > 2 ^ 63 - 1 then None else Some v)"

datatype cron_error = InvalidSchedule string

definition ParseCronInterval :: "string \<Rightarrow> cron_error + Duration" where
  "ParseCronInterval schedule =
     (let parts = Fields schedule in
      if length parts < 5 then Inl (InvalidSchedule schedule)
      else
        let minute = parts ! 0; hour = parts ! 1;
            everyMinutes =
              (if HasPrefix minute ''*/'' then
                 (case Atoi (TrimPrefix minute ''*/'') of
                    Some n \<Rightarrow> if n > 0 then Some n else None
                  | None \<Rightarrow> None)
               else None);
            everyHours =
              (if minute = ''0'' \<and> HasPrefix hour ''*/'' then
                 (case Atoi (TrimPrefix hour ''*/'') of
                    Some n \<Rightarrow> if n > 0 then Some n else None
                  | None \<Rightarrow> None)
               else None)
        in case everyMinutes of
             Some n \<Rightarrow> Inr (n * Minute)
           | None \<Rightarrow>
               (case everyHours of
                  Some n \<Rightarrow> Inr (n * Hour)
                | None \<Rightarrow>
                    if Atoi minute \<noteq> None \<and> hour = ''*'' then Inr Hour
                    else if Atoi minute \<noteq> None \<and> Atoi hour \<noteq> None then Inr (24 * Hour)
                    else Inr Minute))"

definition GetTestJitter :: "Test \<Rightarrow> JitterConfig \<Rightarrow> JitterConfig" where
  "GetTestJitter t global = GetEffectiveJitter (Test.Jitter t) (Some global)"

definition GetStepJitter :: "TestStep \<Rightarrow> JitterConfig option \<Rightarrow> JitterConfig" where
  "GetStepJitter s testJitter = GetEffectiveJitter (TestStep.Jitter s) testJitter"

text \<open>
  An executor is what the interface \<open>TestExecutor\<close> asks for: its method \<open>RunTest\<close>, here a
  function from the test to the outcome of the run (an outcome of any type \<open>'r\<close>). The cron
  library is represented by the list of entries added to it and by \<open>validSchedule\<close>, its
  verdict on a schedule expression.
\<close>

record 'r Scheduler =
  executors :: "string \<rightharpoonup> (Test \<Rightarrow> 'r)"
  config :: Config

record 'r cron_entry =
  entrySchedule :: string
  entryTest :: Test
  entryExecutorType :: string
  entryExec :: "Test \<Rightarrow> 'r"
  entryMaxJitter :: Duration

fun schedule_tests ::
  "(string \<Rightarrow> bool) \<Rightarrow> 'r Scheduler \<Rightarrow> Test list \<Rightarrow> 'r cron_entry list \<Rightarrow>
   cron_error option \<times> 'r cron_entry list" where
  "schedule_tests validSchedule s [] entries = (None, entries)"
| "schedule_tests validSchedule s (test # tests) entries =
     (if \<not> Test.Enabled test then schedule_tests validSchedule s tests entries
      else
        let executorType = GetExecutor test in
        case executors s executorType of
          None \<Rightarrow> schedule_tests validSchedule s tests entries
        | Some exec \<Rightarrow>
            let effectiveJitter = GetTestJitter test (Config.Jitter (config s));
                maxJitter =
                  (if IsEnabled (Some effectiveJitter)
                   then duration_or_zero
                          (ParseMaxJitter (Some effectiveJitter)
                             (case ParseCronInterval (Schedule test) of Inl _ \<Rightarrow> 0 | Inr d \<Rightarrow> d))
                   else 0)
            in if \<not> validSchedule (Schedule test) then (Some (InvalidSchedule (Schedule test)), entries)
               else schedule_tests validSchedule s tests
                      (entries @ [\<lparr>entrySchedule = Schedule test, entryTest = test,
                                    entryExecutorType = executorType, entryExec = exec,
                                    entryMaxJitter = maxJitter\<rparr>]))"

definition Start ::
  "(string \<Rightarrow> bool) \<Rightarrow> 'r Scheduler \<Rightarrow> cron_error option \<times> 'r cron_entry list" where
  \<comment> \<open>the error returned and the entries the cron table holds afterwards\<close>
  "Start validSchedule s = schedule_tests validSchedule s (Tests (config s)) []"

definition fire :: "int \<Rightarrow> bool \<Rightarrow> Context \<Rightarrow> 'r cron_entry \<Rightarrow> 'r option" where
  \<comment> \<open>the function registered for an entry: the jitter, then the run (\<open>None\<close>: the jitter was
      interrupted and the test did not run)\<close>
  "fire draw timerFirst ctx e =
     (if entryMaxJitter e > 0 \<and> fst (Apply draw timerFirst ctx (entryMaxJitter e)) \<noteq> None then None
      else Some (entryExec e (entryTest e)))"

datatype run_error = UnknownExecutorType string string | TestNotFound string

definition RunNow :: "'r Scheduler \<Rightarrow> string \<Rightarrow> run_error + 'r" where
  "RunNow s testName =
     (case find (\<lambda>test. Test.Name test = testName) (Tests (config s)) of
        None \<Rightarrow> Inl (TestNotFound testName)
      | Some test \<Rightarrow>
          let executorType = GetExecutor test in
          (case executors s executorType of
             None \<Rightarrow> Inl (UnknownExecutorType executorType testName)
           | Some exec \<Rightarrow> Inr (exec test)))"

definition disabled_test_config :: Config where
  "disabled_test_config =
     \<lparr>Satellite = \<lparr>AccessGrant = ''grant'', SatelliteConfig.Bucket = ''synthetics''\<rparr>,
      S3 = \<lparr>Endpoint = [], AccessKey = [], SecretKey = [], Region = ''us-east-1''\<rparr>,
      Tests = [\<lparr>Test.Name = ''t1'', Schedule = ''*/5 * * * *'', Test.Enabled = False, Executor = [],
                Test.Bucket = None, Filename = None, Test.Jitter = None,
                Steps = [\<lparr>TestStep.Name = ''upload'', Script = ''upload.js'', Timeout = ''1m'',
                          FileSize = Some 1024, TTLSeconds = None, FilePrefix = None,
                          MaxAgeMinutes = None, MaxDelete = None, TestStep.Jitter = None\<rparr>]\<rparr>],
      K6 = \<lparr>BinaryPath = ''/usr/local/bin/k6'', OutputFormat = ''json''\<rparr>,
      Metrics = \<lparr>Port = 8080, Path = ''/metrics''\<rparr>,
      Logging = \<lparr>Level = ''info'', Format = ''json''\<rparr>,
      Config.Jitter = \<lparr>JitterConfig.Enabled = None, Max = []\<rparr>\<rparr>"

section \<open>Executors (package executor)\<close>

text \<open>
  A run talks to the outside: the object store, the random source, the clock, the context.
  What the outside answers is an argument of the model. \<open>step_env\<close> holds the answers one step
  meets, \<open>run_env\<close> those of the run itself. The collector is the state, passed in and
  returned; \<open>None\<close> is a run that panics. The log lines are not part of the state.
\<close>

record step_env =
  jitterDraw :: int
  jitterTimerFirst :: bool
  jitterCtx :: Context
  randFails :: bool
  callFails :: bool
  copyFails :: bool
  bytesRead :: nat
  opDuration :: Duration
  stepDuration :: Duration


datatype exec_error =
    BucketNotAccessible string
  | EnsureBucketFailed string exec_error
  | StepJitterInterrupted ctx_error
  | UnknownOperation string
  | OperationFailed string
  | StepExecutionFailed exec_error
  | TestFailedAtStep string string exec_error

type_synonym step_result = "(exec_error option \<times> Collector) option"

definition step_jitter :: "step_env \<Rightarrow> TestStep \<Rightarrow> ctx_error option" where
  \<comment> \<open>the first block of every \<open>runStep\<close>: the error of the step's jitter, if it is applied and
      interrupted\<close>
  "step_jitter env step =
     (if TestStep.Jitter step \<noteq> None \<and> IsEnabled (TestStep.Jitter step) then
        (let maxJitter = duration_or_zero (ParseMaxJitter (TestStep.Jitter step) 0) in
         if maxJitter > 0
         then fst (Apply (jitterDraw env) (jitterTimerFirst env) (jitterCtx env) maxJitter)
         else None)
      else None)"

definition record_step :: "string \<Rightarrow> string \<Rightarrow> string \<Rightarrow> Duration \<Rightarrow> step_result \<Rightarrow> step_result" where
  \<comment> \<open>the last block of every \<open>runStep\<close>, after the operation has returned \<open>err\<close>\<close>
  "record_step testName stepName executor duration r =
     (case r of
        None \<Rightarrow> None
      | Some (err, c) \<Rightarrow>
          (case err of
             Some e \<Rightarrow> Some (Some (StepExecutionFailed e), RecordTestRun testName stepName executor False duration c)
           | None \<Rightarrow> Some (None, RecordTestRun testName stepName executor True duration c)))"

subsection \<open>The SDK executor\<close>


definition S3_uploadObject :: "step_env \<Rightarrow> string \<Rightarrow> string \<Rightarrow> string \<Rightarrow> TestStep \<Rightarrow> Collector \<Rightarrow> step_result" where
  "S3_uploadObject env testName bucket filename step c =
     (let fileSize = (case FileSize step of Some fs \<Rightarrow> fs | None \<Rightarrow> 1024 * 1024);
          fileSizeLabel = (case FileSize step of Some fs \<Rightarrow> ByteSize_String fs | None \<Rightarrow> ''1MB'')
      in if fileSize < 0 then None
         else if randFails env then Some (Some (OperationFailed ''failed to generate random data''), c)
         else if callFails env then
           (case RecordStorjUpload testName ''s3'' bucket fileSizeLabel (opDuration env) fileSize False c of
              None \<Rightarrow> None
            | Some c' \<Rightarrow> Some (Some (OperationFailed ''S3 PutObject failed''), c'))
         else
           (case RecordStorjUpload testName ''s3'' bucket fileSizeLabel (opDuration env) fileSize True c of
              None \<Rightarrow> None
            | Some c' \<Rightarrow> Some (None, c')))"

definition S3_downloadObject :: "step_env \<Rightarrow> string \<Rightarrow> string \<Rightarrow> string \<Rightarrow> Collector \<Rightarrow> step_result" where
  "S3_downloadObject env testName bucket filename c =
     (if callFails env then
        (case RecordStorjDownload testName ''s3'' bucket [] (opDuration env) 0 False c of
           None \<Rightarrow> None
         | Some c' \<Rightarrow> Some (Some (OperationFailed ''S3 GetObject failed''), c'))
      else if copyFails env then
        (case RecordStorjDownload testName ''s3'' bucket [] (opDuration env) (int (bytesRead env)) False c of
           None \<Rightarrow> None
         | Some c' \<Rightarrow> Some (Some (OperationFailed ''failed to read S3 object''), c'))
      else
        (case RecordStorjDownload testName ''s3'' bucket [] (opDuration env) (int (bytesRead env)) True c of
           None \<Rightarrow> None
         | Some c' \<Rightarrow> Some (None, c')))"

definition S3_deleteObject :: "step_env \<Rightarrow> string \<Rightarrow> string \<Rightarrow> string \<Rightarrow> string \<Rightarrow> Collector \<Rightarrow> step_result" where
  "S3_deleteObject env testName bucket filename fileSizeLabel c =
     (if callFails env then
        Some (Some (OperationFailed ''S3 DeleteObject failed''),
              RecordStorjDelete testName ''s3'' bucket fileSizeLabel 0 0 False c)
      else
        Some (None, RecordStorjDelete testName ''s3'' bucket fileSizeLabel (opDuration env) 1 True c))"

definition S3_runStep :: "step_env \<Rightarrow> string \<Rightarrow> TestStep \<Rightarrow> string \<Rightarrow> string \<Rightarrow> Collector \<Rightarrow> step_result" where
  "S3_runStep env testName step filename bucket c =
     (case step_jitter env step of
        Some e \<Rightarrow> Some (Some (StepJitterInterrupted e), c)
      | None \<Rightarrow>
          let fileSizeLabel = (case FileSize step of Some fs \<Rightarrow> ByteSize_String fs | None \<Rightarrow> []);
              timeout = TimeoutDuration step
          in record_step testName (TestStep.Name step) ''s3'' (stepDuration env)
               (if TestStep.Name step = ''upload'' then S3_uploadObject env testName bucket filename step c
                else if TestStep.Name step = ''download'' then S3_downloadObject env testName bucket filename c
                else if TestStep.Name step = ''delete'' then S3_deleteObject env testName bucket filename fileSizeLabel c
                else Some (Some (UnknownOperation (''unknown S3 operation: '' @ TestStep.Name step)), c)))"



subsection \<open>The curl executor and the raw HTTP executor\<close>

text \<open>
  Their \<open>runStep\<close> is the same text as the SDK executor's, with another executor name and
  another message. Their three operations are arguments here.
\<close>

record object_ops =
  uploadObject :: "string \<Rightarrow> string \<Rightarrow> string \<Rightarrow> TestStep \<Rightarrow> Collector \<Rightarrow> step_result"
  downloadObject :: "string \<Rightarrow> string \<Rightarrow> string \<Rightarrow> Collector \<Rightarrow> step_result"
  deleteObject :: "string \<Rightarrow> string \<Rightarrow> string \<Rightarrow> string \<Rightarrow> Collector \<Rightarrow> step_result"

definition executorNameCurlS3 :: string where "executorNameCurlS3 = ''curl-s3''"
definition executorNameHttpS3 :: string where "executorNameHttpS3 = ''http-s3''"

definition CurlS3_runStep :: "object_ops \<Rightarrow> step_env \<Rightarrow> string \<Rightarrow> TestStep \<Rightarrow> string \<Rightarrow> string \<Rightarrow> Collector \<Rightarrow> step_result" where
  "CurlS3_runStep e env testName step filename bucket c =
     (case step_jitter env step of
        Some err \<Rightarrow> Some (Some (StepJitterInterrupted err), c)
      | None \<Rightarrow>
          let fileSizeLabel = (case FileSize step of Some fs \<Rightarrow> ByteSize_String fs | None \<Rightarrow> []);
              timeout = TimeoutDuration step
          in record_step testName (TestStep.Name step) executorNameCurlS3 (stepDuration env)
               (if TestStep.Name step = ''upload'' then uploadObject e testName bucket filename step c
                else if TestStep.Name step = ''download'' then downloadObject e testName bucket filename c
                else if TestStep.Name step = ''delete'' then deleteObject e testName bucket filename fileSizeLabel c
                else Some (Some (UnknownOperation (''unknown Curl S3 operation: '' @ TestStep.Name step)), c)))"

definition HttpS3_runStep :: "object_ops \<Rightarrow> step_env \<Rightarrow> string \<Rightarrow> TestStep \<Rightarrow> string \<Rightarrow> string \<Rightarrow> Collector \<Rightarrow> step_result" where
  "HttpS3_runStep e env testName step filename bucket c =
     (case step_jitter env step of
        Some err \<Rightarrow> Some (Some (StepJitterInterrupted err), c)
      | None \<Rightarrow>
          let fileSizeLabel = (case FileSize step of Some fs \<Rightarrow> ByteSize_String fs | None \<Rightarrow> []);
              timeout = TimeoutDuration step
          in record_step testName (TestStep.Name step) executorNameHttpS3 (stepDuration env)
               (if TestStep.Name step = ''upload'' then uploadObject e testName bucket filename step c
                else if TestStep.Name step = ''download'' then downloadObject e testName bucket filename c
                else if TestStep.Name step = ''delete'' then deleteObject e testName bucket filename fileSizeLabel c
                else Some (Some (UnknownOperation (''unknown HTTP S3 operation: '' @ TestStep.Name step)), c)))"

definition plain_step :: "string \<Rightarrow> TestStep" where
  \<comment> \<open>a step with the given name and nothing else set\<close>
  "plain_step n =
     \<lparr>TestStep.Name = n, Script = [], Timeout = ''1m'', FileSize = None, TTLSeconds = None,
      FilePrefix = None, MaxAgeMinutes = None, MaxDelete = None, TestStep.Jitter = None\<rparr>"

definition quiet_step_env :: "bool \<Rightarrow> step_env" where
  \<comment> \<open>answers of the outside for a step: the object-store call fails or not, nothing else does\<close>
  "quiet_step_env fails =
     \<lparr>jitterDraw = 0, jitterTimerFirst = True, jitterCtx = \<lparr>doneAt = None, ctxErr = Canceled\<rparr>,
      randFails = False, callFails = fails, copyFails = False, bytesRead = 1048576,
      opDuration = 250 * Millisecond, stepDuration = 300 * Millisecond\<rparr>"




section \<open>Size labels round-trip\<close>

text \<open>
  C9. For the sizes 1 B, 1 KB, 5 MB and 1 GB, \<open>ByteSize.String\<close> gives the canonical label
  (\<open>1B\<close>, \<open>1KB\<close>, \<open>5MB\<close>, \<open>1GB\<close>) and \<open>parseByteSize\<close> of that label gives the byte count back.
\<close>

theorem size_label_round_trip:
  "ByteSize_String 1 = ''1B'' \<and> parseByteSize (ByteSize_String 1) = Inr 1 \<and>
   ByteSize_String (1 * KB) = ''1KB'' \<and> parseByteSize (ByteSize_String (1 * KB)) = Inr (1 * KB) \<and>
   ByteSize_String (5 * MB) = ''5MB'' \<and> parseByteSize (ByteSize_String (5 * MB)) = Inr (5 * MB) \<and>
   ByteSize_String (1 * GB) = ''1GB'' \<and> parseByteSize (ByteSize_String (1 * GB)) = Inr (1 * GB)"
  by code_simp

section \<open>Step timeouts\<close>

text \<open>
  C6, as the code has it. A timeout that \<open>time.ParseDuration\<close> rejects, the empty string
  included, gives the default of two minutes; every timeout that parses is returned as parsed,
  and that includes a zero duration: \<open>"0"\<close> parses, so no default is put in its place.
\<close>

theorem TimeoutDuration_default_only_on_parse_error:
  "(ParseDuration (Timeout t) = None \<longrightarrow> TimeoutDuration t = 2 * Minute) \<and>
   (\<forall>d. ParseDuration (Timeout t) = Some d \<longrightarrow> TimeoutDuration t = d) \<and>
   (Timeout t = [] \<longrightarrow> TimeoutDuration t = 2 * Minute)"
  by (auto simp: TimeoutDuration_def ParseDuration_def)

lemma ParseDuration_30s: "ParseDuration ''30s'' = Some (30 * Second)"
  by code_simp

lemma ParseDuration_empty: "ParseDuration [] = None"
  by (simp add: ParseDuration_def)

theorem TimeoutDuration_default_only_on_parse_error_witness:
  "TimeoutDuration \<lparr>TestStep.Name = ''upload'', Script = [], Timeout = [], FileSize = None,
       TTLSeconds = None, FilePrefix = None, MaxAgeMinutes = None, MaxDelete = None,
       TestStep.Jitter = None\<rparr> = 2 * Minute \<and>
   TimeoutDuration \<lparr>TestStep.Name = ''upload'', Script = [], Timeout = ''30s'', FileSize = None,
       TTLSeconds = None, FilePrefix = None, MaxAgeMinutes = None, MaxDelete = None,
       TestStep.Jitter = None\<rparr> = 30 * Second"
  using TimeoutDuration_default_only_on_parse_error
          [of "\<lparr>TestStep.Name = ''upload'', Script = [], Timeout = [], FileSize = None,
                TTLSeconds = None, FilePrefix = None, MaxAgeMinutes = None, MaxDelete = None,
                TestStep.Jitter = None\<rparr>"]
        TimeoutDuration_default_only_on_parse_error
          [of "\<lparr>TestStep.Name = ''upload'', Script = [], Timeout = ''30s'', FileSize = None,
                TTLSeconds = None, FilePrefix = None, MaxAgeMinutes = None, MaxDelete = None,
                TestStep.Jitter = None\<rparr>"]
  by (simp add: ParseDuration_30s ParseDuration_empty)

text \<open>
  The claim as stated fails at the timeout \<open>"0"\<close>: the step gets a zero timeout, not two
  minutes.
\<close>

theorem TimeoutDuration_zero_counterexample:
  "TimeoutDuration \<lparr>TestStep.Name = ''upload'', Script = [], Timeout = ''0'', FileSize = None,
       TTLSeconds = None, FilePrefix = None, MaxAgeMinutes = None, MaxDelete = None,
       TestStep.Jitter = None\<rparr> = 0 \<and>
   TimeoutDuration \<lparr>TestStep.Name = ''upload'', Script = [], Timeout = ''0'', FileSize = None,
       TTLSeconds = None, FilePrefix = None, MaxAgeMinutes = None, MaxDelete = None,
       TestStep.Jitter = None\<rparr> \<noteq> 2 * Minute"
  by (simp add: TimeoutDuration_def ParseDuration_def Minute_def)

section \<open>The transfer counters\<close>

lemma record_duration_counters [simp]:
  "storjBytes (record_duration t a e b fs d c) = storjBytes c"
  "storjOperationCount (record_duration t a e b fs d c) = storjOperationCount c"
  "storjOperationSuccess (record_duration t a e b fs d c) = storjOperationSuccess c"
  "testRunsTotal (record_duration t a e b fs d c) = testRunsTotal c"
  by (simp_all add: record_duration_def Let_def)

lemma record_transfer_failure:
  "\<exists>c'. record_transfer t a e b n False c = Some c' \<and>
        storjBytes c' = storjBytes c \<and>
        storjOperationCount c' = storjOperationCount c \<and>
        storjOperationSuccess c' [t, a, e, ''failure''] = storjOperationSuccess c [t, a, e, ''failure''] + 1 \<and>
        testRunsTotal c' = testRunsTotal c"
  by (simp add: record_transfer_def Inc_def)

lemma record_transfer_success:
  "0 \<le> n \<Longrightarrow>
   \<exists>c'. record_transfer t a e b n True c = Some c' \<and>
        storjBytes c' [t, a, e, b] = storjBytes c [t, a, e, b] + n \<and>
        storjOperationCount c' [t, a, e, b] = storjOperationCount c [t, a, e, b] + 1 \<and>
        testRunsTotal c' = testRunsTotal c"
  by (simp add: record_transfer_def Inc_def Add_def)

lemma record_transfer_monotone:
  "record_transfer t a e b n s c = Some c' \<Longrightarrow> storjBytes c l \<le> storjBytes c' l"
  by (auto simp: record_transfer_def Inc_def Add_def split: if_splits)

text \<open>
  C3. A failed upload or download record leaves \<open>synth_bytes_total\<close> and
  \<open>synth_operation_count_total\<close> as they were and adds one to
  \<open>synth_operation_success_total\<close> with status \<open>failure\<close>; a successful one adds the byte count
  to the bytes counter and one to the operation count. Whatever the outcome, no label of the
  bytes counter ever goes down. (A byte count is not negative; on a negative one the
  counter's \<open>Add\<close> panics and there is no new state.)
\<close>

theorem bytes_counter_only_on_success:
  "(\<exists>c'. RecordStorjUpload t e b fs d n False c = Some c' \<and>
          storjBytes c' = storjBytes c \<and>
          storjOperationCount c' = storjOperationCount c \<and>
          storjOperationSuccess c' [t, ''upload'', e, ''failure''] =
            storjOperationSuccess c [t, ''upload'', e, ''failure''] + 1) \<and>
   (\<exists>c'. RecordStorjDownload t e b fs d n False c = Some c' \<and>
          storjBytes c' = storjBytes c \<and>
          storjOperationCount c' = storjOperationCount c \<and>
          storjOperationSuccess c' [t, ''download'', e, ''failure''] =
            storjOperationSuccess c [t, ''download'', e, ''failure''] + 1) \<and>
   (0 \<le> n \<longrightarrow>
      (\<exists>c'. RecordStorjUpload t e b fs d n True c = Some c' \<and>
             storjBytes c' [t, ''upload'', e, b] = storjBytes c [t, ''upload'', e, b] + n \<and>
             storjOperationCount c' [t, ''upload'', e, b] =
               storjOperationCount c [t, ''upload'', e, b] + 1) \<and>
      (\<exists>c'. RecordStorjDownload t e b fs d n True c = Some c' \<and>
             storjBytes c' [t, ''download'', e, b] = storjBytes c [t, ''download'', e, b] + n \<and>
             storjOperationCount c' [t, ''download'', e, b] =
               storjOperationCount c [t, ''download'', e, b] + 1)) \<and>
   (\<forall>s c' l. RecordStorjUpload t e b fs d n s c = Some c' \<longrightarrow> storjBytes c l \<le> storjBytes c' l) \<and>
   (\<forall>s c' l. RecordStorjDownload t e b fs d n s c = Some c' \<longrightarrow> storjBytes c l \<le> storjBytes c' l)"
proof -
  have up_fail: "\<exists>c'. RecordStorjUpload t e b fs d n False c = Some c' \<and>
          storjBytes c' = storjBytes c \<and>
          storjOperationCount c' = storjOperationCount c \<and>
          storjOperationSuccess c' [t, ''upload'', e, ''failure''] =
            storjOperationSuccess c [t, ''upload'', e, ''failure''] + 1"
    using record_transfer_failure [of t "''upload''" e b n "record_duration t ''upload'' e b fs d c"]
    by (auto simp: RecordStorjUpload_def)
  have down_fail: "\<exists>c'. RecordStorjDownload t e b fs d n False c = Some c' \<and>
          storjBytes c' = storjBytes c \<and>
          storjOperationCount c' = storjOperationCount c \<and>
          storjOperationSuccess c' [t, ''download'', e, ''failure''] =
            storjOperationSuccess c [t, ''download'', e, ''failure''] + 1"
    unfolding RecordStorjDownload_def Let_def
    using record_transfer_failure [of t "''download''" e b n]
    by (metis record_duration_counters(1,2,3))
  have up_ok: "\<exists>c'. RecordStorjUpload t e b fs d n True c = Some c' \<and>
             storjBytes c' [t, ''upload'', e, b] = storjBytes c [t, ''upload'', e, b] + n \<and>
             storjOperationCount c' [t, ''upload'', e, b] =
               storjOperationCount c [t, ''upload'', e, b] + 1" if "0 \<le> n"
    using record_transfer_success [OF that, of t "''upload''" e b "record_duration t ''upload'' e b fs d c"]
    by (auto simp: RecordStorjUpload_def)
  have down_ok: "\<exists>c'. RecordStorjDownload t e b fs d n True c = Some c' \<and>
             storjBytes c' [t, ''download'', e, b] = storjBytes c [t, ''download'', e, b] + n \<and>
             storjOperationCount c' [t, ''download'', e, b] =
               storjOperationCount c [t, ''download'', e, b] + 1" if "0 \<le> n"
    unfolding RecordStorjDownload_def Let_def
    using record_transfer_success [OF that, of t "''download''" e b]
    by (metis record_duration_counters(1,2))
  have up_mono: "storjBytes c l \<le> storjBytes c' l" if "RecordStorjUpload t e b fs d n s c = Some c'" for s c' l
    using that unfolding RecordStorjUpload_def
    by (metis record_transfer_monotone record_duration_counters(1))
  have down_mono: "storjBytes c l \<le> storjBytes c' l" if "RecordStorjDownload t e b fs d n s c = Some c'" for s c' l
    using that unfolding RecordStorjDownload_def Let_def
    by (metis record_transfer_monotone record_duration_counters(1))
  show ?thesis
    using up_fail down_fail up_ok down_ok up_mono down_mono by blast
qed

lemma NewCollector_zero:
  "storjBytes NewCollector l = 0"
  "storjOperationCount NewCollector l = 0"
  "storjOperationSuccess NewCollector l = 0"
  "testRunsTotal NewCollector l = 0"
  by (simp_all add: NewCollector_def)

theorem bytes_counter_only_on_success_witness:
  "(0::int) \<le> 524288 \<and>
   (\<exists>c'. RecordStorjUpload ''t1'' ''uplink'' ''bkt'' ''512KB'' 734000000 524288 True NewCollector = Some c' \<and>
         storjBytes c' [''t1'', ''upload'', ''uplink'', ''bkt''] = 524288 \<and>
         storjOperationCount c' [''t1'', ''upload'', ''uplink'', ''bkt''] = 1) \<and>
   (\<exists>c'. RecordStorjDownload ''t1'' ''curl-s3'' ''bkt'' [] 20000000 0 False NewCollector = Some c' \<and>
         storjBytes c' = storjBytes NewCollector \<and>
         storjOperationSuccess c' [''t1'', ''download'', ''curl-s3'', ''failure''] = 1)"
proof -
  have h: "(0::int) \<le> 524288" by simp
  have up: "\<exists>c'. RecordStorjUpload ''t1'' ''uplink'' ''bkt'' ''512KB'' 734000000 524288 True NewCollector = Some c' \<and>
         storjBytes c' [''t1'', ''upload'', ''uplink'', ''bkt''] = 524288 \<and>
         storjOperationCount c' [''t1'', ''upload'', ''uplink'', ''bkt''] = 1"
    using h bytes_counter_only_on_success
            [of "''t1''" "''uplink''" "''bkt''" "''512KB''" 734000000 524288 NewCollector]
    by (auto simp: NewCollector_zero)
  have down: "\<exists>c'. RecordStorjDownload ''t1'' ''curl-s3'' ''bkt'' [] 20000000 0 False NewCollector = Some c' \<and>
         storjBytes c' = storjBytes NewCollector \<and>
         storjOperationSuccess c' [''t1'', ''download'', ''curl-s3'', ''failure''] = 1"
    using bytes_counter_only_on_success
            [of "''t1''" "''curl-s3''" "''bkt''" "[]" 20000000 0 NewCollector]
    by (auto simp: NewCollector_zero)
  show ?thesis using h up down by blast
qed

section \<open>Phases of a curl timing line\<close>











section \<open>The jitter delay\<close>

text \<open>
  C8. With \<open>maxJitter \<le> 0\<close>, \<open>Apply\<close> returns \<open>nil\<close> at once, without waiting. Otherwise the
  delay it draws lies in \<open>[0, maxJitter)\<close>; if the context does not end before the delay is
  over, it waits that long and returns \<open>nil\<close>; if the context ends first, it returns the
  context's error.
\<close>

theorem Apply_returns_nil_or_context_error:
  "(maxJitter \<le> 0 \<longrightarrow> Apply draw tf ctx maxJitter = (None, 0)) \<and>
   (0 < maxJitter \<longrightarrow>
      0 \<le> Int63n draw maxJitter \<and> Int63n draw maxJitter < maxJitter \<and>
      (doneAt ctx = None \<longrightarrow> Apply draw tf ctx maxJitter = (None, Int63n draw maxJitter)) \<and>
      (\<forall>t. doneAt ctx = Some t \<and> Int63n draw maxJitter < t \<longrightarrow>
           Apply draw tf ctx maxJitter = (None, Int63n draw maxJitter)) \<and>
      (\<forall>t. doneAt ctx = Some t \<and> max 0 t < Int63n draw maxJitter \<longrightarrow>
           fst (Apply draw tf ctx maxJitter) = Some (ctxErr ctx) \<and>
           snd (Apply draw tf ctx maxJitter) < Int63n draw maxJitter))"
  by (auto simp: Apply_def Int63n_def Let_def)

theorem Apply_returns_nil_or_context_error_witness:
  "Apply 7 True \<lparr>doneAt = None, ctxErr = Canceled\<rparr> 0 = (None, 0) \<and>
   Apply 12345678901 True \<lparr>doneAt = None, ctxErr = Canceled\<rparr> (5 * Second) = (None, 2345678901) \<and>
   Apply 12345678901 True \<lparr>doneAt = Some (3 * Second), ctxErr = Canceled\<rparr> (5 * Second) = (None, 2345678901) \<and>
   fst (Apply 12345678901 True \<lparr>doneAt = Some (2 * Second), ctxErr = Canceled\<rparr> (5 * Second)) = Some Canceled"
  using Apply_returns_nil_or_context_error [of 0 7 True "\<lparr>doneAt = None, ctxErr = Canceled\<rparr>"]
        Apply_returns_nil_or_context_error [of "5 * Second" 12345678901 True "\<lparr>doneAt = None, ctxErr = Canceled\<rparr>"]
        Apply_returns_nil_or_context_error [of "5 * Second" 12345678901 True "\<lparr>doneAt = Some (3 * Second), ctxErr = Canceled\<rparr>"]
        Apply_returns_nil_or_context_error [of "5 * Second" 12345678901 True "\<lparr>doneAt = Some (2 * Second), ctxErr = Canceled\<rparr>"]
  by (simp add: Second_def Int63n_def)


section \<open>A test without steps\<close>

lemma Load_keeps_tests:
  assumes "readFile path = Some data" and "unmarshal (expandEnv data) = Some cfg"
  shows "\<exists>cfg'. Load readFile expandEnv unmarshal path = Inr cfg' \<and> Tests cfg' = Tests cfg"
  using assms by (simp add: Load_def Let_def)

text \<open>
  C5 asks that a configuration with a test whose list of steps is empty fails to load. The
  declaration of \<open>Test.Steps\<close> says the same (\<open>Required: 1+ steps\<close>), but \<open>Load\<close> checks nothing
  after decoding: the document is accepted and the test comes back with no step.
\<close>

theorem Load_accepts_test_without_steps:
  "\<exists>cfg. Load (\<lambda>_. Some empty_steps_document) (\<lambda>s. s) (\<lambda>_. Some empty_steps_config)
                ''config.yaml'' = Inr cfg \<and>
         map Test.Name (Tests cfg) = [''t1''] \<and> map Steps (Tests cfg) = [[]]"
proof -
  obtain cfg where "Load (\<lambda>_. Some empty_steps_document) (\<lambda>s. s) (\<lambda>_. Some empty_steps_config) ''config.yaml'' = Inr cfg"
    and "Tests cfg = Tests empty_steps_config"
    using Load_keeps_tests [of "\<lambda>_. Some empty_steps_document" "''config.yaml''" empty_steps_document "\<lambda>_. Some empty_steps_config" "\<lambda>s. s" empty_steps_config]
    by auto
  then show ?thesis by (auto simp: empty_steps_config_def)
qed

section \<open>Running a disabled test on demand\<close>

lemma schedule_tests_enabled:
  "schedule_tests v s tests entries = (err, entries') \<Longrightarrow>
   list_all (\<lambda>e. Test.Enabled (entryTest e)) entries \<Longrightarrow>
   list_all (\<lambda>e. Test.Enabled (entryTest e)) entries'"
  by (induction v s tests entries rule: schedule_tests.induct)
     (auto simp: Let_def split: if_splits option.splits)

text \<open>
  C10. \<open>RunNow\<close> looks the test up by name, resolves its executor and runs it; it never reads
  the flag \<open>Enabled\<close>, so a disabled test runs when asked for by name. The flag is read in
  \<open>Start\<close> only: no entry of the cron table is for a disabled test.
\<close>

theorem RunNow_runs_disabled_test:
  "(find (\<lambda>test. Test.Name test = name) (Tests (config s)) = Some t \<and>
    executors s (GetExecutor t) = Some exec \<longrightarrow> RunNow s name = Inr (exec t)) \<and>
   (\<forall>err entries. Start v s = (err, entries) \<longrightarrow>
      list_all (\<lambda>e. Test.Enabled (entryTest e)) entries)"
proof -
  have "list_all (\<lambda>e. Test.Enabled (entryTest e)) entries" if "Start v s = (err, entries)" for err entries
    using schedule_tests_enabled [of v s "Tests (config s)" "[]" err entries] that
    by (simp add: Start_def)
  then show ?thesis by (simp add: RunNow_def)
qed

theorem RunNow_runs_disabled_test_witness:
  "\<not> Test.Enabled (hd (Tests disabled_test_config)) \<and>
   RunNow \<lparr>executors = [''uplink'' \<mapsto> (\<lambda>t. ''ran '' @ Test.Name t)], config = disabled_test_config\<rparr> ''t1''
     = Inr ''ran t1'' \<and>
   Start (\<lambda>_. True) \<lparr>executors = [''uplink'' \<mapsto> (\<lambda>t. ''ran '' @ Test.Name t)], config = disabled_test_config\<rparr>
     = (None, [])"
proof -
  let ?s = "\<lparr>executors = [''uplink'' \<mapsto> (\<lambda>t. ''ran '' @ Test.Name t)], config = disabled_test_config\<rparr>"
  have 1: "find (\<lambda>test. Test.Name test = ''t1'') (Tests (config ?s)) = Some (hd (Tests disabled_test_config))"
    by (simp add: disabled_test_config_def)
  have 2: "executors ?s (GetExecutor (hd (Tests disabled_test_config))) = Some (\<lambda>t. ''ran '' @ Test.Name t)"
    by (simp add: disabled_test_config_def GetExecutor_def)
  have "RunNow ?s ''t1'' = Inr ((\<lambda>t. ''ran '' @ Test.Name t) (hd (Tests disabled_test_config)))"
    using RunNow_runs_disabled_test [of "''t1''" ?s "hd (Tests disabled_test_config)" "\<lambda>t. ''ran '' @ Test.Name t"] 1 2
    by blast
  moreover have "Start (\<lambda>_. True) ?s = (None, [])"
    by (simp add: Start_def disabled_test_config_def)
  ultimately show ?thesis by (simp add: disabled_test_config_def)
qed

section \<open>Dispatch on the step name\<close>

text \<open>
  C2, as the code has it. In the SDK, curl and raw HTTP executors a step named \<open>upload\<close>,
  \<open>download\<close> or \<open>delete\<close> runs the operation of that name, and the step's outcome is the
  operation's. Every other name, \<open>list\<close> included, runs no operation: the step fails at once
  with the unknown-operation error and is recorded as a failure. (The step's jitter, when
  configured, comes before the dispatch: the statement is for a step whose jitter did not
  interrupt it.)
\<close>

theorem known_operations_are_dispatched:
  assumes "step_jitter env step = None"
  shows
    "(TestStep.Name step = ''upload'' \<longrightarrow>
        S3_runStep env T step f b c =
          record_step T ''upload'' ''s3'' (stepDuration env) (S3_uploadObject env T b f step c) \<and>
        CurlS3_runStep e env T step f b c =
          record_step T ''upload'' ''curl-s3'' (stepDuration env) (uploadObject e T b f step c) \<and>
        HttpS3_runStep e env T step f b c =
          record_step T ''upload'' ''http-s3'' (stepDuration env) (uploadObject e T b f step c)) \<and>
     (TestStep.Name step = ''download'' \<longrightarrow>
        S3_runStep env T step f b c =
          record_step T ''download'' ''s3'' (stepDuration env) (S3_downloadObject env T b f c) \<and>
        CurlS3_runStep e env T step f b c =
          record_step T ''download'' ''curl-s3'' (stepDuration env) (downloadObject e T b f c) \<and>
        HttpS3_runStep e env T step f b c =
          record_step T ''download'' ''http-s3'' (stepDuration env) (downloadObject e T b f c)) \<and>
     (TestStep.Name step = ''delete'' \<longrightarrow>
        S3_runStep env T step f b c =
          record_step T ''delete'' ''s3'' (stepDuration env)
            (S3_deleteObject env T b f (case FileSize step of Some fs \<Rightarrow> ByteSize_String fs | None \<Rightarrow> []) c) \<and>
        CurlS3_runStep e env T step f b c =
          record_step T ''delete'' ''curl-s3'' (stepDuration env)
            (deleteObject e T b f (case FileSize step of Some fs \<Rightarrow> ByteSize_String fs | None \<Rightarrow> []) c) \<and>
        HttpS3_runStep e env T step f b c =
          record_step T ''delete'' ''http-s3'' (stepDuration env)
            (deleteObject e T b f (case FileSize step of Some fs \<Rightarrow> ByteSize_String fs | None \<Rightarrow> []) c)) \<and>
     (TestStep.Name step \<noteq> ''upload'' \<and> TestStep.Name step \<noteq> ''download'' \<and>
      TestStep.Name step \<noteq> ''delete'' \<longrightarrow>
        S3_runStep env T step f b c =
          Some (Some (StepExecutionFailed (UnknownOperation (''unknown S3 operation: '' @ TestStep.Name step))),
                RecordTestRun T (TestStep.Name step) ''s3'' False (stepDuration env) c) \<and>
        CurlS3_runStep e env T step f b c =
          Some (Some (StepExecutionFailed (UnknownOperation (''unknown Curl S3 operation: '' @ TestStep.Name step))),
                RecordTestRun T (TestStep.Name step) ''curl-s3'' False (stepDuration env) c) \<and>
        HttpS3_runStep e env T step f b c =
          Some (Some (StepExecutionFailed (UnknownOperation (''unknown HTTP S3 operation: '' @ TestStep.Name step))),
                RecordTestRun T (TestStep.Name step) ''http-s3'' False (stepDuration env) c))"
  using assms
  by (simp add: S3_runStep_def CurlS3_runStep_def HttpS3_runStep_def record_step_def
        executorNameCurlS3_def executorNameHttpS3_def Let_def)

lemma plain_step_no_jitter: "step_jitter env (plain_step n) = None"
  by (simp add: step_jitter_def plain_step_def)

theorem known_operations_are_dispatched_witness:
  "step_jitter (quiet_step_env False) (plain_step ''upload'') = None \<and>
   S3_runStep (quiet_step_env False) ''t1'' (plain_step ''upload'') ''t1-x.bin'' ''bkt'' NewCollector =
     record_step ''t1'' ''upload'' ''s3'' (stepDuration (quiet_step_env False))
       (S3_uploadObject (quiet_step_env False) ''t1'' ''bkt'' ''t1-x.bin'' (plain_step ''upload'') NewCollector) \<and>
   S3_runStep (quiet_step_env False) ''t1'' (plain_step ''stat'') ''t1-x.bin'' ''bkt'' NewCollector =
     Some (Some (StepExecutionFailed (UnknownOperation ''unknown S3 operation: stat'')),
           RecordTestRun ''t1'' ''stat'' ''s3'' False (stepDuration (quiet_step_env False)) NewCollector)"
proof -
  have u: "step_jitter (quiet_step_env False) (plain_step ''upload'') = None"
    by (rule plain_step_no_jitter)
  have v: "step_jitter (quiet_step_env False) (plain_step ''stat'') = None"
    by (rule plain_step_no_jitter)
  show ?thesis
    using u known_operations_are_dispatched
            [OF u, where T = "''t1''" and f = "''t1-x.bin''" and b = "''bkt''" and c = NewCollector]
          known_operations_are_dispatched
            [OF v, where T = "''t1''" and f = "''t1-x.bin''" and b = "''bkt''" and c = NewCollector]
    by (simp add: plain_step_def)
qed

text \<open>
  The claim as stated fails at the name \<open>list\<close>: none of the three executors has a list
  operation, and the step fails as any unknown name does.
\<close>

theorem list_step_counterexample:
  "S3_runStep (quiet_step_env False) ''t1'' (plain_step ''list'') ''t1-x.bin'' ''bkt'' NewCollector =
     Some (Some (StepExecutionFailed (UnknownOperation ''unknown S3 operation: list'')),
           RecordTestRun ''t1'' ''list'' ''s3'' False (300 * Millisecond) NewCollector) \<and>
   CurlS3_runStep \<lparr>uploadObject = (\<lambda>_ _ _ _ c. Some (None, c)), downloadObject = (\<lambda>_ _ _ c. Some (None, c)),
                    deleteObject = (\<lambda>_ _ _ _ c. Some (None, c))\<rparr>
       (quiet_step_env False) ''t1'' (plain_step ''list'') ''t1-x.bin'' ''bkt'' NewCollector =
     Some (Some (StepExecutionFailed (UnknownOperation ''unknown Curl S3 operation: list'')),
           RecordTestRun ''t1'' ''list'' ''curl-s3'' False (300 * Millisecond) NewCollector) \<and>
   HttpS3_runStep \<lparr>uploadObject = (\<lambda>_ _ _ _ c. Some (None, c)), downloadObject = (\<lambda>_ _ _ c. Some (None, c)),
                    deleteObject = (\<lambda>_ _ _ _ c. Some (None, c))\<rparr>
       (quiet_step_env False) ''t1'' (plain_step ''list'') ''t1-x.bin'' ''bkt'' NewCollector =
     Some (Some (StepExecutionFailed (UnknownOperation ''unknown HTTP S3 operation: list'')),
           RecordTestRun ''t1'' ''list'' ''http-s3'' False (300 * Millisecond) NewCollector)"
  by (simp add: S3_runStep_def CurlS3_runStep_def HttpS3_runStep_def record_step_def
        executorNameCurlS3_def executorNameHttpS3_def Let_def plain_step_no_jitter)
     (simp add: plain_step_def quiet_step_env_def)

section \<open>Counting the runs of a test\<close>























end
